theory Spec2Isabelle
  imports Main
begin

section \<open>Python exceptions and observable effects\<close>

text \<open>
  An exception object is modelled by the name of its class and by the text that
  \<^verbatim>\<open>str(e)\<close> gives. A handler \<^verbatim>\<open>except BaseException\<close> catches every exception; a
  handler \<^verbatim>\<open>except Exception\<close> catches all but the built-in classes that derive from
  \<^verbatim>\<open>BaseException\<close> directly.
\<close>

datatype exn = Exn (exn_class: string) (exn_str: string)

definition isinstance_BaseException :: "exn \<Rightarrow> bool" where
  "isinstance_BaseException e = True"

definition isinstance_Exception :: "exn \<Rightarrow> bool" where
  "isinstance_Exception e =
     (exn_class e \<notin> set [''KeyboardInterrupt'', ''SystemExit'', ''GeneratorExit''])"

text \<open>
  The objects of the vendor's client library that the adapter reads: a user
  (\<^verbatim>\<open>me()\<close>, the items of the followers cursor) and a status.
\<close>

record user =
  user_id :: int
  screen_name :: string
  description :: string

record status =
  status_id :: int
  favorite_count :: int
  retweet_count :: int

text \<open>
  What \<^verbatim>\<open>Cursor(...).items()\<close> does when it is iterated: it hands over an item and goes
  on, it is exhausted, or a page request raises.
\<close>

datatype 'a cursor = Exhausted | Item 'a "'a cursor" | Broken exn

fun cursor_of :: "'a list \<Rightarrow> 'a cursor" where
  "cursor_of [] = Exhausted"
| "cursor_of (x # xs) = Item x (cursor_of xs)"

fun broken_after :: "'a list \<Rightarrow> exn \<Rightarrow> 'a cursor" where
  "broken_after [] e = Broken e"
| "broken_after (x # xs) e = Item x (broken_after xs e)"

text \<open>
  The vendor's client object \<^verbatim>\<open>self.api\<close>, simulated: each method is a function from its
  arguments to what the call does, \<open>Inl e\<close> when it raises \<open>e\<close>. No operation of the
  adapter calls the same method twice, so a function of the arguments loses nothing.
\<close>

record vendor =
  update_status :: "string \<Rightarrow> exn + status"
  update_with_media :: "string \<Rightarrow> string \<Rightarrow> exn + status"
  destroy_status :: "string \<Rightarrow> exn + status"
  followers :: "string \<Rightarrow> user cursor"
  me :: "exn + user"
  user_timeline :: "int \<Rightarrow> nat \<Rightarrow> exn + status list"
  get_status :: "int \<Rightarrow> exn + status"

text \<open>
  The adapter object. \<^verbatim>\<open>username\<close> calls \<^verbatim>\<open>self.user_info()\<close>, which class
  \<^verbatim>\<open>Twitter\<close> does not define and whose defining module is not among the sources: what
  that call does is a parameter of the model.
\<close>

record twitter =
  api :: vendor
  user_info :: "exn + (string \<times> string) list"

datatype vendor_op =
    UpdateStatus string
  | UpdateWithMedia string string
  | DestroyStatus string
  | Followers string
  | Me
  | UserTimeline int nat
  | GetStatus int
  | UserInfo

datatype adapter_op = PostText string | PostPhoto string string

text \<open>
  The effects a run leaves behind, in order: a call to the vendor, an item taken from
  a cursor, a line printed, a pause of so many seconds, and (seen from the
  presentation layer) a call of an adapter method.
\<close>

datatype event =
    VendorCall vendor_op
  | CursorItem
  | Print string
  | Sleep nat
  | AdapterCall adapter_op

type_synonym 'a io = "(exn + 'a) \<times> event list"

definition return_io :: "'a \<Rightarrow> 'a io" where
  "return_io x = (Inr x, [])"

definition emit :: "event \<Rightarrow> unit io" where
  "emit ev = (Inr (), [ev])"

definition call :: "vendor_op \<Rightarrow> exn + 'a \<Rightarrow> 'a io" where
  "call opn outcome = (outcome, [VendorCall opn])"

definition bind_io :: "'a io \<Rightarrow> ('a \<Rightarrow> 'b io) \<Rightarrow> 'b io" where
  "bind_io m f =
     (case m of
        (Inl e, t) \<Rightarrow> (Inl e, t)
      | (Inr x, t) \<Rightarrow> (case f x of (r, t') \<Rightarrow> (r, t @ t')))"

definition try_except :: "(exn \<Rightarrow> bool) \<Rightarrow> 'a io \<Rightarrow> (exn \<Rightarrow> 'a io) \<Rightarrow> 'a io" where
  "try_except catches body handler =
     (case body of
        (Inr x, t) \<Rightarrow> (Inr x, t)
      | (Inl e, t) \<Rightarrow>
          (if catches e then (case handler e of (r, t') \<Rightarrow> (r, t @ t'))
           else (Inl e, t)))"

section \<open>The adapter: class Twitter\<close>

subsection \<open>Write operations\<close>

definition post_text :: "twitter \<Rightarrow> string \<Rightarrow> bool io" where
  "post_text self text =
     try_except isinstance_BaseException
       (bind_io (call (UpdateStatus text) (update_status (api self) text))
          (\<lambda>_. return_io True))
       (\<lambda>e. bind_io (emit (Print (exn_str e))) (\<lambda>_. return_io False))"

definition post_video :: "twitter \<Rightarrow> string \<Rightarrow> string \<Rightarrow> bool io" where
  "post_video self url text = return_io False"

definition post_photo :: "twitter \<Rightarrow> string \<Rightarrow> string \<Rightarrow> bool io" where
  "post_photo self url text =
     try_except isinstance_BaseException
       (bind_io (call (UpdateWithMedia url text) (update_with_media (api self) url text))
          (\<lambda>_. return_io True))
       (\<lambda>e. bind_io (emit (Print (exn_str e))) (\<lambda>_. return_io False))"

definition remove_post :: "twitter \<Rightarrow> string \<Rightarrow> bool io" where
  "remove_post self post_id =
     try_except isinstance_BaseException
       (bind_io (call (DestroyStatus post_id) (destroy_status (api self) post_id))
          (\<lambda>_. return_io True))
       (\<lambda>e. bind_io (emit (Print (exn_str e))) (\<lambda>_. return_io False))"

subsection \<open>Follower pagination\<close>

text \<open>
  The body of the \<^verbatim>\<open>for\<close> loop of \<^verbatim>\<open>get_user_followers\<close>, with the list
  \<^verbatim>\<open>my_followers\<close> and the counter \<^verbatim>\<open>i\<close> as they stand before the next item.
\<close>

fun followers_loop :: "user cursor \<Rightarrow> string list \<Rightarrow> nat \<Rightarrow> string list io" where
  "followers_loop Exhausted my_followers i = return_io my_followers"
| "followers_loop (Broken e) my_followers i = (Inl e, [])"
| "followers_loop (Item follower rest) my_followers i =
     bind_io (emit CursorItem)
       (\<lambda>_. if i + 1 \<ge> 100
            then bind_io (emit (Sleep 1))
                   (\<lambda>_. followers_loop rest (my_followers @ [screen_name follower]) 0)
            else followers_loop rest (my_followers @ [screen_name follower]) (i + 1))"

definition get_user_followers :: "twitter \<Rightarrow> string \<Rightarrow> string list io" where
  "get_user_followers self text =
     bind_io (emit (VendorCall (Followers text)))
       (\<lambda>_. followers_loop (followers (api self) text) [] 0)"

subsection \<open>Read operations\<close>

text \<open>Python's \<^verbatim>\<open>d[key]\<close> on a dict: the value, or \<^verbatim>\<open>KeyError(key)\<close>.\<close>

definition dict_getitem :: "(string \<times> 'v) list \<Rightarrow> string \<Rightarrow> exn + 'v" where
  "dict_getitem d k =
     (case map_of d k of
        None \<Rightarrow> Inl (Exn ''KeyError'' ([CHR 0x27] @ k @ [CHR 0x27]))
      | Some v \<Rightarrow> Inr v)"

text \<open>Python's \<^verbatim>\<open>xs[0]\<close> on a list.\<close>

definition list_getitem0 :: "'a list \<Rightarrow> exn + 'a" where
  "list_getitem0 xs =
     (case xs of
        [] \<Rightarrow> Inl (Exn ''IndexError'' ''list index out of range'')
      | x # _ \<Rightarrow> Inr x)"

definition lift_io :: "exn + 'a \<Rightarrow> 'a io" where
  "lift_io outcome = (outcome, [])"

definition username :: "twitter \<Rightarrow> string io" where
  "username self =
     bind_io (call UserInfo (user_info self))
       (\<lambda>info. lift_io (dict_getitem info ''screen_name''))"

definition id_twitter :: "twitter \<Rightarrow> int io" where
  "id_twitter self = bind_io (call Me (me (api self))) (\<lambda>u. return_io (user_id u))"

definition bio :: "twitter \<Rightarrow> string io" where
  "bio self = bind_io (call Me (me (api self))) (\<lambda>u. return_io (description u))"

definition get_user_likes :: "twitter \<Rightarrow> int io" where
  "get_user_likes self = return_io (- 1)"

definition last_tweet :: "twitter \<Rightarrow> status io" where
  "last_tweet self =
     bind_io (id_twitter self)
       (\<lambda>uid. bind_io (call (UserTimeline uid 1) (user_timeline (api self) uid 1))
          (\<lambda>timeline. lift_io (list_getitem0 timeline)))"

definition favorites_on :: "twitter \<Rightarrow> int \<Rightarrow> int io" where
  "favorites_on self tweet_id =
     bind_io (call (GetStatus tweet_id) (get_status (api self) tweet_id))
       (\<lambda>s. return_io (favorite_count s))"

definition retweets_on :: "twitter \<Rightarrow> int \<Rightarrow> int io" where
  "retweets_on self tweet_id =
     bind_io (call (GetStatus tweet_id) (get_status (api self) tweet_id))
       (\<lambda>s. return_io (retweet_count s))"

definition latest_favorites :: "twitter \<Rightarrow> int io" where
  "latest_favorites self =
     bind_io (last_tweet self) (\<lambda>t. favorites_on self (status_id t))"

definition latest_retweets :: "twitter \<Rightarrow> int io" where
  "latest_retweets self =
     bind_io (last_tweet self) (\<lambda>t. retweets_on self (status_id t))"

section \<open>The stream writer: class StdOutListener\<close>

text \<open>
  A Python \<^verbatim>\<open>str\<close> that goes to the file is the list of its code points, so that a
  text with a code point that an encoding rejects (a lone surrogate under UTF-8) is a
  value of the model.
\<close>

type_synonym pystr = "nat list"

definition codepoints :: "string \<Rightarrow> pystr" where
  "codepoints s = map of_char s"

text \<open>
  What \<^verbatim>\<open>json.loads\<close> returns. An object is the list of its members, each name
  once; only the name \<^verbatim>\<open>text\<close> is looked up. A float is kept as its literal: only
  its Python type matters here.
\<close>

datatype json =
    JNull
  | JBool bool
  | JInt int
  | JFloat string
  | JString pystr
  | JArray "json list"
  | JObject "(string \<times> json) list"

fun type_name :: "json \<Rightarrow> string" where
  "type_name JNull = ''NoneType''"
| "type_name (JBool _) = ''bool''"
| "type_name (JInt _) = ''int''"
| "type_name (JFloat _) = ''float''"
| "type_name (JString _) = ''str''"
| "type_name (JArray _) = ''list''"
| "type_name (JObject _) = ''dict''"

text \<open>
  Python's \<^verbatim>\<open>j[key]\<close> with a string key: only a dict has string keys. The texts of the
  type errors are CPython 3.11's.
\<close>

fun json_getitem :: "json \<Rightarrow> string \<Rightarrow> exn + json" where
  "json_getitem (JObject d) k = dict_getitem d k"
| "json_getitem (JArray _) k =
     Inl (Exn ''TypeError'' ''list indices must be integers or slices, not str'')"
| "json_getitem (JString _) k =
     Inl (Exn ''TypeError''
       (''string indices must be integers, not '' @ [CHR 0x27] @ ''str'' @ [CHR 0x27]))"
| "json_getitem j k =
     Inl (Exn ''TypeError''
       ([CHR 0x27] @ type_name j @ [CHR 0x27] @ '' object is not subscriptable''))"

text \<open>
  The argument check of \<^verbatim>\<open>tf.write\<close> on a text file: only a \<^verbatim>\<open>str\<close> passes. The
  message names the type of the argument, and \<^verbatim>\<open>None\<close> by its own name.
\<close>

fun write_arg :: "json \<Rightarrow> exn + pystr" where
  "write_arg (JString s) = Inr s"
| "write_arg JNull = Inl (Exn ''TypeError'' ''write() argument must be str, not None'')"
| "write_arg j = Inl (Exn ''TypeError'' (''write() argument must be str, not '' @ type_name j))"

text \<open>
  The file system, as far as the listener sees it: at a path there is nothing, a
  regular file with its content, or something that \<^verbatim>\<open>open\<close> refuses with an
  \<^verbatim>\<open>OSError\<close> (a missing directory, a directory, a file without write permission).
\<close>

datatype node = Absent | Regular pystr | Unopenable exn

type_synonym fs = "string \<Rightarrow> node"

definition content_of :: "fs \<Rightarrow> string \<Rightarrow> pystr" where
  "content_of files path = (case files path of Regular c \<Rightarrow> c | _ \<Rightarrow> [])"

text \<open>
  \<^verbatim>\<open>open(path, 'a')\<close>: the empty path and a path with a null character are refused
  whatever the file system holds; otherwise the node decides, and a missing file is
  created empty.
\<close>

definition open_append :: "fs \<Rightarrow> string \<Rightarrow> exn + fs" where
  "open_append files path =
     (if path = [] then
        Inl (Exn ''FileNotFoundError''
          (''[Errno 2] No such file or directory: '' @ [CHR 0x27, CHR 0x27]))
      else if CHR 0x00 \<in> set path then Inl (Exn ''ValueError'' ''embedded null byte'')
      else (case files path of
              Absent \<Rightarrow> Inr (files(path := Regular []))
            | Regular c \<Rightarrow> Inr files
            | Unopenable e \<Rightarrow> Inl e))"

text \<open>
  The Python runtime around the listener, as two parameters: \<^verbatim>\<open>json.loads\<close> on a raw
  message (of any type \<open>'m\<close>: the listener only hands it on), and what the text layer
  of the opened file raises when a text is written to a path and flushed: the file's
  encoding, which is the locale's, cannot encode the text, or the device takes none of
  it. \<open>None\<close> means that the text goes to the end of the file.
\<close>

record 'm runtime =
  loads :: "'m \<Rightarrow> exn + json"
  write_error :: "string \<Rightarrow> pystr \<Rightarrow> exn option"

text \<open>\<^verbatim>\<open>tf.write(v)\<close> and the flush when the \<^verbatim>\<open>with\<close> block is left.\<close>

definition file_write :: "'m runtime \<Rightarrow> fs \<Rightarrow> string \<Rightarrow> json \<Rightarrow> exn + fs" where
  "file_write rt files path v =
     (case write_arg v of
        Inl e \<Rightarrow> Inl e
      | Inr s \<Rightarrow>
          (case write_error rt path s of
             Some e \<Rightarrow> Inl e
           | None \<Rightarrow> Inr (files(path := Regular (content_of files path @ s)))))"

record listener =
  fetched_tweets_filename :: string

text \<open>
  \<^verbatim>\<open>on_data\<close>. Every statement of the \<^verbatim>\<open>try\<close> block can raise: \<^verbatim>\<open>open\<close>,
  \<^verbatim>\<open>json.loads\<close>, the subscript and \<^verbatim>\<open>tf.write\<close>. The handler
  \<^verbatim>\<open>except BaseException\<close> prints and falls through to the final \<^verbatim>\<open>return True\<close>.
\<close>

definition on_data_handler :: "fs \<Rightarrow> exn \<Rightarrow> (exn + bool) \<times> fs \<times> event list" where
  "on_data_handler files e = (Inr True, files, [Print (''Error on data '' @ exn_str e)])"

definition on_data ::
  "'m runtime \<Rightarrow> listener \<Rightarrow> 'm \<Rightarrow> fs \<Rightarrow> (exn + bool) \<times> fs \<times> event list" where
  "on_data rt self raw_data files =
     (case open_append files (fetched_tweets_filename self) of
        Inl e \<Rightarrow> on_data_handler files e
      | Inr tf \<Rightarrow>
          (case loads rt raw_data of
             Inl e \<Rightarrow> on_data_handler tf e
           | Inr j \<Rightarrow>
               (case json_getitem j ''text'' of
                  Inl e \<Rightarrow> on_data_handler tf e
                | Inr v \<Rightarrow>
                    (case file_write rt tf (fetched_tweets_filename self) v of
                       Inl e \<Rightarrow> on_data_handler tf e
                     | Inr tf' \<Rightarrow> (Inr True, tf', [])))))"

text \<open>
  The vendor's realtime channel, simulated: while the session is listening it hands
  each inbound message to \<^verbatim>\<open>on_data\<close>, and it stops listening when the handler returns
  \<^verbatim>\<open>False\<close> or raises.
\<close>

datatype session = Listening | Stopped

record stream =
  session :: session
  files :: fs
  returned :: "(exn + bool) list"
  printed :: "event list"

definition stream_step :: "'m runtime \<Rightarrow> listener \<Rightarrow> stream \<Rightarrow> 'm \<Rightarrow> stream" where
  "stream_step rt self st raw_data =
     (if session st = Stopped then st
      else (case on_data rt self raw_data (files st) of
              (r, files', t) \<Rightarrow>
                \<lparr>session = (if r = Inr True then Listening else Stopped),
                 files = files',
                 returned = returned st @ [r],
                 printed = printed st @ t\<rparr>))"

definition stream_filter :: "'m runtime \<Rightarrow> listener \<Rightarrow> fs \<Rightarrow> 'm list \<Rightarrow> stream" where
  "stream_filter rt self files0 inbound =
     foldl (stream_step rt self)
       \<lparr>session = Listening, files = files0, returned = [], printed = []\<rparr> inbound"

text \<open>
  The text of a well-formed message: the message decodes to an object whose member
  \<^verbatim>\<open>text\<close> is a string.
\<close>

definition tweet_text :: "'m runtime \<Rightarrow> 'm \<Rightarrow> pystr option" where
  "tweet_text rt raw_data =
     (case loads rt raw_data of
        Inr (JObject d) \<Rightarrow> (case map_of d ''text'' of Some (JString s) \<Rightarrow> Some s | _ \<Rightarrow> None)
      | _ \<Rightarrow> None)"

text \<open>A message that is valid JSON with a member \<^verbatim>\<open>text\<close>, of whatever type.\<close>

definition has_text_field :: "'m runtime \<Rightarrow> 'm \<Rightarrow> bool" where
  "has_text_field rt raw_data =
     (case loads rt raw_data of
        Inr (JObject d) \<Rightarrow> map_of d ''text'' \<noteq> None
      | _ \<Rightarrow> False)"

text \<open>The destination can be opened for appending.\<close>

definition openable :: "fs \<Rightarrow> string \<Rightarrow> bool" where
  "openable files0 path = (case open_append files0 path of Inl e \<Rightarrow> False | Inr tf \<Rightarrow> True)"

text \<open>Every text in a list can be written to the path.\<close>

definition writable :: "'m runtime \<Rightarrow> string \<Rightarrow> pystr list \<Rightarrow> bool" where
  "writable rt path texts = (filter (\<lambda>s. write_error rt path s \<noteq> None) texts = [])"

section \<open>The presentation layer: class GUI\<close>

text \<open>
  \<^verbatim>\<open>str.strip()\<close>: a \<open>char\<close> stands for a code point below 256, and these are the
  ones Python counts as whitespace.
\<close>

definition py_isspace :: "char \<Rightarrow> bool" where
  "py_isspace c =
     (c \<in> set [CHR 0x09, CHR 0x0A, CHR 0x0B, CHR 0x0C, CHR 0x0D, CHR 0x1C, CHR 0x1D,
               CHR 0x1E, CHR 0x1F, CHR 0x20, CHR 0x85, CHR 0xA0])"

definition strip :: "string \<Rightarrow> string" where
  "strip s = rev (dropWhile py_isspace (rev (dropWhile py_isspace s)))"

fun show_nat :: "nat \<Rightarrow> string" where
  "show_nat n =
     (if n < 10 then [char_of (48 + n)]
      else show_nat (n div 10) @ [char_of (48 + n mod 10)])"

declare show_nat.simps [simp del]

definition show_int :: "int \<Rightarrow> string" where
  "show_int k = (if k < 0 then CHR ''-'' # show_nat (nat (- k)) else show_nat (nat k))"

text \<open>
  The widgets that the post actions read and set: what \<^verbatim>\<open>text_box.get(1.0, END)\<close> and
  \<^verbatim>\<open>filepath.get()\<close> return, the status label \<^verbatim>\<open>io_error\<close>, and what
  \<^verbatim>\<open>api_box.curselection()\<close> returns.
\<close>

record gui =
  text_box :: string
  filepath :: string
  io_error :: string
  curselection :: "int list"

definition api_cache :: "(int \<times> string) list" where
  "api_cache =
     [(0, ''Facebook''), (1, ''Tumblr''), (2, ''Instagram''), (3, ''Twitter''),
      (4, ''Reddit''), (5, ''Youtube''), (6, ''Discord''), (7, ''Slack'')]"

text \<open>The list comprehension \<^verbatim>\<open>[api_cache[code] for code in selected_as_codes]\<close>.\<close>

fun api_list :: "int list \<Rightarrow> exn + string list" where
  "api_list [] = Inr []"
| "api_list (code # codes) =
     (case map_of api_cache code of
        None \<Rightarrow> Inl (Exn ''KeyError'' (show_int code))
      | Some a \<Rightarrow> (case api_list codes of Inl e \<Rightarrow> Inl e | Inr as \<Rightarrow> Inr (a # as)))"

definition api_iterator :: "gui \<Rightarrow> string list io" where
  "api_iterator self = lift_io (api_list (curselection self))"

text \<open>
  The \<^verbatim>\<open>for\<close> loops of the two post actions over the selected platforms. The value
  that the adapter returns is dropped.
\<close>

fun post_text_loop :: "twitter \<Rightarrow> string \<Rightarrow> string list \<Rightarrow> unit io" where
  "post_text_loop tw text [] = return_io ()"
| "post_text_loop tw text (a # as) =
     (if a = ''Twitter''
      then bind_io (emit (AdapterCall (PostText text)))
             (\<lambda>_. bind_io (post_text tw text) (\<lambda>_. post_text_loop tw text as))
      else post_text_loop tw text as)"

fun post_pic_loop :: "twitter \<Rightarrow> string \<Rightarrow> string \<Rightarrow> string list \<Rightarrow> unit io" where
  "post_pic_loop tw url text [] = return_io ()"
| "post_pic_loop tw url text (a # as) =
     (if a = ''Twitter''
      then bind_io (emit (AdapterCall (PostPhoto url text)))
             (\<lambda>_. bind_io (post_photo tw url text) (\<lambda>_. post_pic_loop tw url text as))
      else post_pic_loop tw url text as)"

text \<open>
  The end of a post action: the \<^verbatim>\<open>try\<close> block has run, and the handler
  \<^verbatim>\<open>except Exception\<close> sets the status label.
\<close>

definition except_Exception_set ::
  "string \<Rightarrow> gui \<Rightarrow> unit io \<Rightarrow> (exn + unit) \<times> gui \<times> event list" where
  "except_Exception_set msg self body =
     (case body of
        (Inr _, t) \<Rightarrow> (Inr (), self, t)
      | (Inl e, t) \<Rightarrow>
          (if isinstance_Exception e then (Inr (), self\<lparr>io_error := msg\<rparr>, t)
           else (Inl e, self, t)))"

definition gui_post_text :: "twitter \<Rightarrow> gui \<Rightarrow> (exn + unit) \<times> gui \<times> event list" where
  "gui_post_text tw self =
     (let text = strip (text_box self) in
      if text = [] then (Inr (), self\<lparr>io_error := ''Error: no text found''\<rparr>, [])
      else except_Exception_set ''An API failed to post text'' (self\<lparr>io_error := []\<rparr>)
             (bind_io (api_iterator (self\<lparr>io_error := []\<rparr>)) (post_text_loop tw text)))"

definition gui_post_pic :: "twitter \<Rightarrow> gui \<Rightarrow> (exn + unit) \<times> gui \<times> event list" where
  "gui_post_pic tw self =
     (let text = text_box self; url = filepath self in
      if url = ''No file uploaded'' then (Inr (), self\<lparr>io_error := ''Error: no file found''\<rparr>, [])
      else except_Exception_set ''An API failed to post a photo'' (self\<lparr>io_error := []\<rparr>)
             (bind_io (api_iterator (self\<lparr>io_error := []\<rparr>)) (post_pic_loop tw url text)))"

section \<open>Simulated collaborators\<close>

text \<open>A vendor that accepts every call, and a vendor on which every call raises.\<close>

definition posted_status :: status where
  "posted_status = \<lparr>status_id = 6, favorite_count = 0, retweet_count = 0\<rparr>"

definition vendor_up :: "user \<Rightarrow> user list \<Rightarrow> status list \<Rightarrow> vendor" where
  "vendor_up myself flw timeline =
     \<lparr>update_status = (\<lambda>text. Inr posted_status),
      update_with_media = (\<lambda>url text. Inr posted_status),
      destroy_status = (\<lambda>post_id. Inr posted_status),
      followers = (\<lambda>name. cursor_of flw),
      me = Inr myself,
      user_timeline = (\<lambda>uid n. Inr (take n timeline)),
      get_status =
        (\<lambda>tweet_id. case find (\<lambda>s. status_id s = tweet_id) timeline of
           Some s \<Rightarrow> Inr s
         | None \<Rightarrow> Inl (Exn ''TweepError'' ''No status found with that ID.''))\<rparr>"

definition vendor_down :: "exn \<Rightarrow> vendor" where
  "vendor_down e =
     \<lparr>update_status = (\<lambda>text. Inl e),
      update_with_media = (\<lambda>url text. Inl e),
      destroy_status = (\<lambda>post_id. Inl e),
      followers = (\<lambda>name. Broken e),
      me = Inl e,
      user_timeline = (\<lambda>uid n. Inl e),
      get_status = (\<lambda>tweet_id. Inl e)\<rparr>"

definition rate_limited :: exn where
  "rate_limited = Exn ''TweepError'' ''Rate limit exceeded''"

definition over_capacity :: exn where
  "over_capacity = Exn ''TweepError'' ''Over capacity''"

definition interrupted :: exn where
  "interrupted = Exn ''KeyboardInterrupt'' []"

definition no_user_info :: exn where
  "no_user_info = Exn ''AttributeError'' ''user_info''"

definition sim_me :: user where
  "sim_me = \<lparr>user_id = 1, screen_name = ''me'', description = ''posting''\<rparr>"

definition sim_fan :: user where
  "sim_fan = \<lparr>user_id = 2, screen_name = ''fan'', description = []\<rparr>"

definition sim_friend :: user where
  "sim_friend = \<lparr>user_id = 3, screen_name = ''friend'', description = []\<rparr>"

definition latest_status :: status where
  "latest_status = \<lparr>status_id = 5, favorite_count = 7, retweet_count = 3\<rparr>"

definition older_status :: status where
  "older_status = \<lparr>status_id = 4, favorite_count = 1, retweet_count = 0\<rparr>"

text \<open>Vendors that work up to one call: the cursor, the timeline, the status lookup.\<close>

definition vendor_cursor_breaks :: vendor where
  "vendor_cursor_breaks =
     (vendor_up sim_me [] [latest_status, older_status])
       \<lparr>followers := (\<lambda>name. broken_after [sim_fan, sim_friend] rate_limited)\<rparr>"

definition vendor_timeline_down :: vendor where
  "vendor_timeline_down =
     (vendor_up sim_me [] [latest_status, older_status])
       \<lparr>user_timeline := (\<lambda>uid n. Inl over_capacity)\<rparr>"

definition vendor_status_down :: vendor where
  "vendor_status_down =
     (vendor_up sim_me [] [latest_status, older_status])
       \<lparr>get_status := (\<lambda>tweet_id. Inl over_capacity)\<rparr>"

definition twitter_on :: "vendor \<Rightarrow> twitter" where
  "twitter_on v = \<lparr>api = v, user_info = Inl no_user_info\<rparr>"

text \<open>
  A decoder that knows the messages of a table and rejects every other one, and a
  text layer that cannot write the lone surrogate U+D800, with the error of the UTF-8
  encoder, and writes every other text.
\<close>

definition sim_loads :: "(string \<times> json) list \<Rightarrow> string \<Rightarrow> exn + json" where
  "sim_loads table raw_data =
     (case map_of table raw_data of
        Some j \<Rightarrow> Inr j
      | None \<Rightarrow> Inl (Exn ''JSONDecodeError'' ''Expecting value: line 1 column 1 (char 0)''))"

definition surrogate_message :: string where
  \<open>surrogate_message = ''{"text": "'' @ [CHR 0x5C] @ ''ud800"}''\<close>

definition sim_table :: "(string \<times> json) list" where
  \<open>sim_table =
     [(''{"text": "a"}'', JObject [(''text'', JString (codepoints ''a''))]),
      (''{"text": 5}'', JObject [(''text'', JInt 5)]),
      (''{"text": "b"}'', JObject [(''text'', JString (codepoints ''b''))]),
      (surrogate_message, JObject [(''text'', JString [0xD800])])]\<close>

definition sim_write_error :: "string \<Rightarrow> pystr \<Rightarrow> exn option" where
  "sim_write_error path s =
     (if s = [0xD800] then
        Some (Exn ''UnicodeEncodeError''
          ([CHR 0x27] @ ''utf-8'' @ [CHR 0x27] @ '' codec can'' @ [CHR 0x27]
           @ ''t encode character '' @ [CHR 0x27, CHR 0x5C] @ ''ud800'' @ [CHR 0x27]
           @ '' in position 0: surrogates not allowed''))
      else None)"

definition sim_runtime :: "string runtime" where
  "sim_runtime = \<lparr>loads = sim_loads sim_table, write_error = sim_write_error\<rparr>"

definition sim_inbound :: "string list" where
  \<open>sim_inbound = [''{"text": "a"}'', ''{"text": 5}'', ''not json'', ''{"text": "b"}'']\<close>

definition sim_listener :: listener where
  "sim_listener = \<lparr>fetched_tweets_filename = ''tweets.txt''\<rparr>"

text \<open>An empty file system, and one where no path can be opened.\<close>

definition no_files :: fs where
  "no_files path = Absent"

definition locked_files :: fs where
  "locked_files path =
     Unopenable (Exn ''PermissionError''
       (''[Errno 13] Permission denied: '' @ [CHR 0x27] @ path @ [CHR 0x27]))"

text \<open>
  The form with only whitespace in the text box, and with the text \<^verbatim>\<open>hello\<close> (and the
  newline that the text widget adds), a file chosen, a stale status and a selection.
\<close>

definition gui_blank :: gui where
  "gui_blank =
     \<lparr>text_box = '' '' @ [CHR 0x09, CHR 0x0A], filepath = ''No file uploaded'',
      io_error = [], curselection = [3]\<rparr>"

definition gui_hello :: "int list \<Rightarrow> gui" where
  "gui_hello selection =
     \<lparr>text_box = ''hello'' @ [CHR 0x0A], filepath = ''/tmp/cat.jpg'',
      io_error = ''Error: no text found'', curselection = selection\<rparr>"

section \<open>The words of the spec\<close>

text \<open>
  The effects of reading \<open>n\<close> followers as the spec words them: after every 100
  accumulated items a pause of one second, and no pause after a last batch of fewer.
\<close>

definition paced_trace :: "nat \<Rightarrow> event list" where
  "paced_trace n =
     concat (replicate (n div 100) (replicate 100 CursorItem @ [Sleep 1]))
     @ replicate (n mod 100) CursorItem"

text \<open>The pauses among the effects, in order, each with its seconds.\<close>

fun pauses :: "event list \<Rightarrow> nat list" where
  "pauses [] = []"
| "pauses (Sleep n # t) = n # pauses t"
| "pauses (_ # t) = pauses t"

text \<open>The inbound messages that are not well-formed.\<close>

definition skipped :: "'m runtime \<Rightarrow> 'm list \<Rightarrow> 'm list" where
  "skipped rt inbound = filter (\<lambda>raw_data. tweet_text rt raw_data = None) inbound"

section \<open>Facts about the effect combinators\<close>

lemmas io_defs = return_io_def emit_def call_def bind_io_def try_except_def lift_io_def
  isinstance_BaseException_def

lemma bind_emit: "bind_io (emit ev) (\<lambda>_. m) = (fst m, ev # snd m)"
  by (simp add: bind_io_def emit_def split: prod.splits)

lemma bind_io_raise: "bind_io (Inl e, t) f = (Inl e, t)"
  by (simp add: bind_io_def)

lemma bind_io_value: "bind_io (Inr x, t) f = (fst (f x), t @ snd (f x))"
  by (simp add: bind_io_def split: prod.splits)

lemma bind_io_fst_value: "fst m = Inr x \<Longrightarrow> fst (bind_io m f) = fst (f x)"
  by (cases m) (simp add: bind_io_def split: prod.splits)

section \<open>Follower pagination\<close>

lemma followers_loop_result:
  "fst (followers_loop (cursor_of xs) acc i) = Inr (acc @ map screen_name xs)"
  by (induction xs arbitrary: acc i) (simp_all add: bind_emit return_io_def)

lemma paced_trace_step:
  "paced_trace (100 + n) = replicate 100 CursorItem @ [Sleep 1] @ paced_trace n"
proof -
  have "(100 + n) div 100 = Suc (n div 100)" by simp
  then show ?thesis by (simp add: paced_trace_def)
qed

lemma followers_loop_trace:
  "i < 100 \<Longrightarrow>
   replicate i CursorItem @ snd (followers_loop (cursor_of xs) acc i) = paced_trace (i + length xs)"
proof (induction xs arbitrary: acc i)
  case Nil
  then show ?case by (simp add: return_io_def paced_trace_def)
next
  case (Cons x xs)
  let ?acc = "acc @ [screen_name x]"
  show ?case
  proof (cases "i + 1 \<ge> 100")
    case True
    with Cons.prems have i: "i = 99" by simp
    have r0: "CursorItem # replicate 99 CursorItem = replicate 100 CursorItem"
      using replicate_Suc[of 99 CursorItem] by simp
    have r: "replicate 99 CursorItem @ [CursorItem] = replicate 100 CursorItem"
      using r0 by (simp add: replicate_append_same)
    have "replicate 99 CursorItem @ CursorItem # Sleep 1 # snd (followers_loop (cursor_of xs) ?acc 0)
        = (replicate 99 CursorItem @ [CursorItem]) @ [Sleep 1] @ paced_trace (length xs)"
      using Cons.IH[of 0 ?acc] by simp
    also have "\<dots> = paced_trace (100 + length xs)"
      by (simp only: paced_trace_step r)
    finally show ?thesis using i by (simp add: bind_emit r0)
  next
    case False
    then have lt: "i + 1 < 100" by simp
    have "replicate i CursorItem @ CursorItem # snd (followers_loop (cursor_of xs) ?acc (i + 1))
        = replicate (i + 1) CursorItem @ snd (followers_loop (cursor_of xs) ?acc (i + 1))"
      by (simp add: replicate_append_same)
    also have "\<dots> = paced_trace (i + 1 + length xs)"
      using Cons.IH[OF lt] .
    finally show ?thesis using False by (simp add: bind_emit)
  qed
qed

lemma pauses_append: "pauses (s @ t) = pauses s @ pauses t"
  by (induction s rule: pauses.induct) simp_all

lemma pauses_items: "pauses (replicate k CursorItem) = []"
  by (induction k) simp_all

lemma pauses_batches:
  "pauses (concat (replicate m (replicate 100 CursorItem @ [Sleep 1]))) = replicate m 1"
  by (induction m) (simp_all add: pauses_append pauses_items)

lemma pauses_paced_trace: "pauses (paced_trace n) = replicate (n div 100) 1"
  unfolding paced_trace_def pauses_append pauses_items pauses_batches by simp

text \<open>
  Claim C1. When the followers cursor hands over the items \<open>xs\<close> and is then exhausted,
  \<^verbatim>\<open>get_user_followers\<close> returns the screen names of all of them in the cursor's order,
  its effects are those the spec words (a pause of one second after every 100
  accumulated items, none after a last batch of fewer), and the pauses are exactly
  \<open>length xs div 100\<close>, each of one second.
\<close>

theorem get_user_followers_paged:
  assumes "followers (api self) text = cursor_of xs"
  shows "get_user_followers self text =
           (Inr (map screen_name xs), VendorCall (Followers text) # paced_trace (length xs))
         \<and> pauses (snd (get_user_followers self text)) = replicate (length xs div 100) 1"
proof -
  have t: "snd (followers_loop (cursor_of xs) [] 0) = paced_trace (length xs)"
    using followers_loop_trace[of 0 xs "[]"] by simp
  have r: "fst (followers_loop (cursor_of xs) [] 0) = Inr (map screen_name xs)"
    using followers_loop_result[of xs "[]" 0] by simp
  have g: "get_user_followers self text =
      (Inr (map screen_name xs), VendorCall (Followers text) # paced_trace (length xs))"
    using assms t r by (simp add: get_user_followers_def bind_emit)
  show ?thesis by (simp add: g pauses_paced_trace)
qed

text \<open>At 250 followers: all 250 names, and two pauses.\<close>

theorem get_user_followers_paged_witness:
  "get_user_followers (twitter_on (vendor_up sim_me (replicate 250 sim_fan) [])) ''me''
     = (Inr (replicate 250 ''fan''), VendorCall (Followers ''me'') # paced_trace 250)
   \<and> pauses (snd (get_user_followers
                    (twitter_on (vendor_up sim_me (replicate 250 sim_fan) [])) ''me''))
     = [1, 1]"
proof -
  let ?self = "twitter_on (vendor_up sim_me (replicate 250 sim_fan) [])"
  have h: "followers (api ?self) ''me'' = cursor_of (replicate 250 sim_fan)"
    by (simp add: twitter_on_def vendor_up_def)
  have two: "replicate (250 div 100) (1::nat) = [1, 1]"
    by (simp add: numeral_2_eq_2)
  have len: "length (replicate 250 sim_fan) = 250"
    and names: "map screen_name (replicate 250 sim_fan) = replicate 250 ''fan''"
    by (simp_all add: sim_fan_def)
  note inst = get_user_followers_paged[OF h]
  from inst[THEN conjunct1] have A: "get_user_followers ?self ''me''
      = (Inr (replicate 250 ''fan''), VendorCall (Followers ''me'') # paced_trace 250)"
    by (simp only: len names)
  from inst[THEN conjunct2]
  have "pauses (snd (get_user_followers ?self ''me'')) = replicate (250 div 100) 1"
    by (simp only: len)
  then have B: "pauses (snd (get_user_followers ?self ''me'')) = [1, 1]"
    by (simp only: two)
  from A B show ?thesis by (rule conjI)
qed

section \<open>Unsupported capabilities\<close>

text \<open>
  Claim C8. \<^verbatim>\<open>post_video\<close> returns \<^verbatim>\<open>False\<close> for every adapter, url and text; it
  does not raise and leaves no effect behind: no vendor call, nothing printed.
\<close>

theorem post_video_always_false:
  "post_video self url text = (Inr False, [])"
  by (simp add: post_video_def return_io_def)

text \<open>
  Claim C9. \<^verbatim>\<open>get_user_likes\<close> returns the sentinel \<open>-1\<close> for every adapter, whatever
  its vendor does, and leaves no effect behind.
\<close>

theorem get_user_likes_sentinel:
  "get_user_likes self = (Inr (- 1), [])"
  by (simp add: get_user_likes_def return_io_def)

section \<open>Write operations swallow, read operations propagate\<close>

lemma try_post_accepted:
  "outcome = Inr s \<Longrightarrow>
   try_except isinstance_BaseException
     (bind_io (call opn outcome) (\<lambda>_. return_io True))
     (\<lambda>e. bind_io (emit (Print (exn_str e))) (\<lambda>_. return_io False))
   = (Inr True, [VendorCall opn])"
  by (simp add: io_defs)

lemma try_post_rejected:
  "outcome = Inl e \<Longrightarrow>
   try_except isinstance_BaseException
     (bind_io (call opn outcome) (\<lambda>_. return_io True))
     (\<lambda>e. bind_io (emit (Print (exn_str e))) (\<lambda>_. return_io False))
   = (Inr False, [VendorCall opn, Print (exn_str e)])"
  by (simp add: io_defs)

lemma try_post_returns:
  "fst (try_except isinstance_BaseException
     (bind_io (call opn outcome) (\<lambda>_. return_io True))
     (\<lambda>e. bind_io (emit (Print (exn_str e))) (\<lambda>_. return_io False)))
   \<in> {Inr True, Inr False}"
  by (cases outcome) (simp_all add: io_defs)

text \<open>
  Claim C3. \<^verbatim>\<open>post_text\<close> (for every text, empty or not), \<^verbatim>\<open>post_photo\<close> and
  \<^verbatim>\<open>remove_post\<close> never raise: each returns \<^verbatim>\<open>True\<close> or \<^verbatim>\<open>False\<close>. When the
  vendor accepts the call the result is \<^verbatim>\<open>True\<close> and nothing is printed; when the vendor
  raises any exception \<open>e\<close>, the result is \<^verbatim>\<open>False\<close> and \<^verbatim>\<open>str(e)\<close> has been printed.
\<close>

theorem write_operations_never_raise:
  "fst (post_text self text) \<in> {Inr True, Inr False}
   \<and> fst (post_photo self url text) \<in> {Inr True, Inr False}
   \<and> fst (remove_post self post_id) \<in> {Inr True, Inr False}
   \<and> (update_status (api self) text = Inr s \<longrightarrow>
        post_text self text = (Inr True, [VendorCall (UpdateStatus text)]))
   \<and> (update_status (api self) text = Inl e \<longrightarrow>
        post_text self text
        = (Inr False, [VendorCall (UpdateStatus text), Print (exn_str e)]))
   \<and> (update_with_media (api self) url text = Inr s \<longrightarrow>
        post_photo self url text = (Inr True, [VendorCall (UpdateWithMedia url text)]))
   \<and> (update_with_media (api self) url text = Inl e \<longrightarrow>
        post_photo self url text
        = (Inr False, [VendorCall (UpdateWithMedia url text), Print (exn_str e)]))
   \<and> (destroy_status (api self) post_id = Inr s \<longrightarrow>
        remove_post self post_id = (Inr True, [VendorCall (DestroyStatus post_id)]))
   \<and> (destroy_status (api self) post_id = Inl e \<longrightarrow>
        remove_post self post_id
        = (Inr False, [VendorCall (DestroyStatus post_id), Print (exn_str e)]))"
proof (intro conjI impI)
  show "fst (post_text self text) \<in> {Inr True, Inr False}"
    unfolding post_text_def by (rule try_post_returns)
  show "fst (post_photo self url text) \<in> {Inr True, Inr False}"
    unfolding post_photo_def by (rule try_post_returns)
  show "fst (remove_post self post_id) \<in> {Inr True, Inr False}"
    unfolding remove_post_def by (rule try_post_returns)
next
  assume "update_status (api self) text = Inr s"
  then show "post_text self text = (Inr True, [VendorCall (UpdateStatus text)])"
    unfolding post_text_def by (rule try_post_accepted)
next
  assume "update_status (api self) text = Inl e"
  then show "post_text self text
      = (Inr False, [VendorCall (UpdateStatus text), Print (exn_str e)])"
    unfolding post_text_def by (rule try_post_rejected)
next
  assume "update_with_media (api self) url text = Inr s"
  then show "post_photo self url text = (Inr True, [VendorCall (UpdateWithMedia url text)])"
    unfolding post_photo_def by (rule try_post_accepted)
next
  assume "update_with_media (api self) url text = Inl e"
  then show "post_photo self url text
      = (Inr False, [VendorCall (UpdateWithMedia url text), Print (exn_str e)])"
    unfolding post_photo_def by (rule try_post_rejected)
next
  assume "destroy_status (api self) post_id = Inr s"
  then show "remove_post self post_id = (Inr True, [VendorCall (DestroyStatus post_id)])"
    unfolding remove_post_def by (rule try_post_accepted)
next
  assume "destroy_status (api self) post_id = Inl e"
  then show "remove_post self post_id
      = (Inr False, [VendorCall (DestroyStatus post_id), Print (exn_str e)])"
    unfolding remove_post_def by (rule try_post_rejected)
qed


text \<open>
  On a vendor that accepts and on vendors that raise, a \<^verbatim>\<open>KeyboardInterrupt\<close> among
  the exceptions.
\<close>

theorem write_operations_never_raise_witness:
  "post_text (twitter_on (vendor_up sim_me [] [])) ''hello''
     = (Inr True, [VendorCall (UpdateStatus ''hello'')])
   \<and> post_photo (twitter_on (vendor_up sim_me [] [])) ''/tmp/cat.jpg'' ''hello''
     = (Inr True, [VendorCall (UpdateWithMedia ''/tmp/cat.jpg'' ''hello'')])
   \<and> remove_post (twitter_on (vendor_up sim_me [] [])) ''17''
     = (Inr True, [VendorCall (DestroyStatus ''17'')])
   \<and> post_text (twitter_on (vendor_down rate_limited)) ''hello''
     = (Inr False, [VendorCall (UpdateStatus ''hello''), Print ''Rate limit exceeded''])
   \<and> post_photo (twitter_on (vendor_down interrupted)) ''/tmp/cat.jpg'' ''hello''
     = (Inr False, [VendorCall (UpdateWithMedia ''/tmp/cat.jpg'' ''hello''), Print []])
   \<and> remove_post (twitter_on (vendor_down rate_limited)) ''17''
     = (Inr False, [VendorCall (DestroyStatus ''17''), Print ''Rate limit exceeded''])"
proof -
  let ?up = "twitter_on (vendor_up sim_me [] [])"
  let ?down = "twitter_on (vendor_down rate_limited)"
  let ?intr = "twitter_on (vendor_down interrupted)"
  have a: "update_status (api ?up) ''hello'' = Inr posted_status"
    "update_with_media (api ?up) ''/tmp/cat.jpg'' ''hello'' = Inr posted_status"
    "destroy_status (api ?up) ''17'' = Inr posted_status"
    by (simp_all add: twitter_on_def vendor_up_def)
  have b: "update_status (api ?down) ''hello'' = Inl rate_limited"
    "destroy_status (api ?down) ''17'' = Inl rate_limited"
    "update_with_media (api ?intr) ''/tmp/cat.jpg'' ''hello'' = Inl interrupted"
    by (simp_all add: twitter_on_def vendor_down_def)
  have m: "exn_str rate_limited = ''Rate limit exceeded''" "exn_str interrupted = []"
    by (simp_all add: rate_limited_def interrupted_def)
  note up = write_operations_never_raise
    [of ?up "''hello''" "''/tmp/cat.jpg''" "''17''" posted_status]
  note down = write_operations_never_raise
    [of ?down "''hello''" _ "''17''" _ rate_limited]
  note intr = write_operations_never_raise
    [of ?intr "''hello''" "''/tmp/cat.jpg''" _ _ interrupted]
  show ?thesis
    using up a down intr b m by simp
qed

lemmas read_defs = username_def id_twitter_def bio_def last_tweet_def favorites_on_def
  retweets_on_def latest_favorites_def latest_retweets_def call_def return_io_def lift_io_def
  bind_io_raise bind_io_value

lemma followers_loop_broken:
  "fst (followers_loop (broken_after xs e) acc i) = Inl e"
  by (induction xs arbitrary: acc i) (simp_all add: bind_emit)

text \<open>
  Claim C5. The read operations have no handler: when the call underneath raises \<open>e\<close>,
  the operation raises the same \<open>e\<close>. For \<^verbatim>\<open>get_user_followers\<close> that is a cursor that
  raises after any items \<open>xs\<close>; for \<^verbatim>\<open>username\<close> the call \<^verbatim>\<open>user_info()\<close>; for
  \<^verbatim>\<open>id\<close> and \<^verbatim>\<open>bio\<close> the call \<^verbatim>\<open>me()\<close>; for \<^verbatim>\<open>latest_favorites\<close> and
  \<^verbatim>\<open>latest_retweets\<close> each of \<^verbatim>\<open>me()\<close>, \<^verbatim>\<open>user_timeline\<close> and \<^verbatim>\<open>get_status\<close>; for
  \<^verbatim>\<open>favorites_on\<close> and \<^verbatim>\<open>retweets_on\<close> the call \<^verbatim>\<open>get_status\<close>.
\<close>

theorem read_operations_propagate:
  "(followers (api self) text = broken_after xs e \<longrightarrow>
      fst (get_user_followers self text) = Inl e)
   \<and> (user_info self = Inl e \<longrightarrow> fst (username self) = Inl e)
   \<and> (me (api self) = Inl e \<longrightarrow>
        fst (id_twitter self) = Inl e \<and> fst (bio self) = Inl e
        \<and> fst (latest_favorites self) = Inl e \<and> fst (latest_retweets self) = Inl e)
   \<and> (me (api self) = Inr u \<and> user_timeline (api self) (user_id u) 1 = Inl e \<longrightarrow>
        fst (latest_favorites self) = Inl e \<and> fst (latest_retweets self) = Inl e)
   \<and> (me (api self) = Inr u \<and> user_timeline (api self) (user_id u) 1 = Inr (t # ts)
        \<and> get_status (api self) (status_id t) = Inl e \<longrightarrow>
        fst (latest_favorites self) = Inl e \<and> fst (latest_retweets self) = Inl e)
   \<and> (get_status (api self) tweet_id = Inl e \<longrightarrow>
        fst (favorites_on self tweet_id) = Inl e \<and> fst (retweets_on self tweet_id) = Inl e)"
proof (intro conjI impI)
  assume "followers (api self) text = broken_after xs e"
  then show "fst (get_user_followers self text) = Inl e"
    by (simp add: get_user_followers_def bind_emit followers_loop_broken)
next
  assume "user_info self = Inl e"
  then show "fst (username self) = Inl e" by (simp add: read_defs)
next
  assume h: "me (api self) = Inl e"
  show "fst (id_twitter self) = Inl e" using h by (simp add: read_defs)
  show "fst (bio self) = Inl e" using h by (simp add: read_defs)
  show "fst (latest_favorites self) = Inl e" using h by (simp add: read_defs)
  show "fst (latest_retweets self) = Inl e" using h by (simp add: read_defs)
next
  assume h: "me (api self) = Inr u \<and> user_timeline (api self) (user_id u) 1 = Inl e"
  show "fst (latest_favorites self) = Inl e" using h by (simp add: read_defs)
  show "fst (latest_retweets self) = Inl e" using h by (simp add: read_defs)
next
  assume h: "me (api self) = Inr u \<and> user_timeline (api self) (user_id u) 1 = Inr (t # ts)
        \<and> get_status (api self) (status_id t) = Inl e"
  show "fst (latest_favorites self) = Inl e" using h by (simp add: read_defs list_getitem0_def)
  show "fst (latest_retweets self) = Inl e" using h by (simp add: read_defs list_getitem0_def)
next
  assume h: "get_status (api self) tweet_id = Inl e"
  show "fst (favorites_on self tweet_id) = Inl e" using h by (simp add: read_defs)
  show "fst (retweets_on self tweet_id) = Inl e" using h by (simp add: read_defs)
qed

text \<open>Each case on a simulated vendor that raises at that call.\<close>

theorem read_operations_propagate_witness:
  "fst (get_user_followers (twitter_on vendor_cursor_breaks) ''me'') = Inl rate_limited
   \<and> fst (username (twitter_on (vendor_down rate_limited))) = Inl no_user_info
   \<and> fst (id_twitter (twitter_on (vendor_down rate_limited))) = Inl rate_limited
   \<and> fst (bio (twitter_on (vendor_down rate_limited))) = Inl rate_limited
   \<and> fst (favorites_on (twitter_on (vendor_down rate_limited)) 5) = Inl rate_limited
   \<and> fst (retweets_on (twitter_on (vendor_down rate_limited)) 5) = Inl rate_limited
   \<and> fst (latest_favorites (twitter_on vendor_timeline_down)) = Inl over_capacity
   \<and> fst (latest_retweets (twitter_on vendor_status_down)) = Inl over_capacity"
proof -
  let ?A = "twitter_on vendor_cursor_breaks"
  let ?B = "twitter_on (vendor_down rate_limited)"
  let ?D = "twitter_on vendor_timeline_down"
  let ?E = "twitter_on vendor_status_down"
  have a: "followers (api ?A) ''me'' = broken_after [sim_fan, sim_friend] rate_limited"
    by (simp add: twitter_on_def vendor_cursor_breaks_def)
  have b: "user_info ?B = Inl no_user_info"
    by (simp add: twitter_on_def)
  have c: "me (api ?B) = Inl rate_limited" "get_status (api ?B) 5 = Inl rate_limited"
    by (simp_all add: twitter_on_def vendor_down_def)
  have d: "me (api ?D) = Inr sim_me
           \<and> user_timeline (api ?D) (user_id sim_me) 1 = Inl over_capacity"
    by (simp add: twitter_on_def vendor_timeline_down_def vendor_up_def)
  have e: "me (api ?E) = Inr sim_me
           \<and> user_timeline (api ?E) (user_id sim_me) 1 = Inr (latest_status # [])
           \<and> get_status (api ?E) (status_id latest_status) = Inl over_capacity"
    by (simp add: twitter_on_def vendor_status_down_def vendor_up_def)
  note A = read_operations_propagate[of ?A "''me''" "[sim_fan, sim_friend]" rate_limited]
  note B = read_operations_propagate[of ?B _ _ no_user_info]
  note C = read_operations_propagate[of ?B _ _ rate_limited _ _ _ 5]
  note D = read_operations_propagate[of ?D _ _ over_capacity sim_me]
  note E = read_operations_propagate[of ?E _ _ over_capacity sim_me latest_status "[]"]
  show ?thesis
    using A a B b C c D d E e by simp
qed

text \<open>
  Claim C6. When the vendor calls succeed and the timeline of the authenticated user
  has a first element \<open>t\<close>, the access at index 0 gives \<open>t\<close>, and
  \<^verbatim>\<open>latest_favorites\<close> and \<^verbatim>\<open>latest_retweets\<close> return the favorite count and the retweet
  count that the vendor reports for the status with the id of \<open>t\<close>. When the timeline
  is empty the access raises \<^verbatim>\<open>IndexError\<close>, and both operations raise it after the two
  vendor calls made so far.
\<close>

theorem latest_counts_need_a_post:
  "(me (api self) = Inr u \<and> user_timeline (api self) (user_id u) 1 = Inr (t # ts)
      \<and> get_status (api self) (status_id t) = Inr s \<longrightarrow>
      fst (last_tweet self) = Inr t
      \<and> fst (latest_favorites self) = Inr (favorite_count s)
      \<and> fst (latest_retweets self) = Inr (retweet_count s))
   \<and> (me (api self) = Inr u \<and> user_timeline (api self) (user_id u) 1 = Inr [] \<longrightarrow>
      fst (last_tweet self) = Inl (Exn ''IndexError'' ''list index out of range'')
      \<and> latest_favorites self
          = (Inl (Exn ''IndexError'' ''list index out of range''),
             [VendorCall Me, VendorCall (UserTimeline (user_id u) 1)])
      \<and> latest_retweets self
          = (Inl (Exn ''IndexError'' ''list index out of range''),
             [VendorCall Me, VendorCall (UserTimeline (user_id u) 1)]))"
proof (intro conjI impI)
  assume h: "me (api self) = Inr u \<and> user_timeline (api self) (user_id u) 1 = Inr (t # ts)
      \<and> get_status (api self) (status_id t) = Inr s"
  show "fst (last_tweet self) = Inr t" using h by (simp add: read_defs list_getitem0_def)
  show "fst (latest_favorites self) = Inr (favorite_count s)"
    using h by (simp add: read_defs list_getitem0_def)
  show "fst (latest_retweets self) = Inr (retweet_count s)"
    using h by (simp add: read_defs list_getitem0_def)
next
  assume h: "me (api self) = Inr u \<and> user_timeline (api self) (user_id u) 1 = Inr []"
  show "fst (last_tweet self) = Inl (Exn ''IndexError'' ''list index out of range'')"
    using h by (simp add: read_defs list_getitem0_def)
  show "latest_favorites self
          = (Inl (Exn ''IndexError'' ''list index out of range''),
             [VendorCall Me, VendorCall (UserTimeline (user_id u) 1)])"
    using h by (simp add: read_defs list_getitem0_def)
  show "latest_retweets self
          = (Inl (Exn ''IndexError'' ''list index out of range''),
             [VendorCall Me, VendorCall (UserTimeline (user_id u) 1)])"
    using h by (simp add: read_defs list_getitem0_def)
qed

text \<open>A timeline of two posts, and an empty one.\<close>

theorem latest_counts_need_a_post_witness:
  "fst (latest_favorites (twitter_on (vendor_up sim_me [] [latest_status, older_status])))
     = Inr 7
   \<and> fst (latest_retweets (twitter_on (vendor_up sim_me [] [latest_status, older_status])))
     = Inr 3
   \<and> latest_favorites (twitter_on (vendor_up sim_me [] []))
     = (Inl (Exn ''IndexError'' ''list index out of range''),
        [VendorCall Me, VendorCall (UserTimeline 1 1)])
   \<and> latest_retweets (twitter_on (vendor_up sim_me [] []))
     = (Inl (Exn ''IndexError'' ''list index out of range''),
        [VendorCall Me, VendorCall (UserTimeline 1 1)])"
proof -
  let ?P = "twitter_on (vendor_up sim_me [] [latest_status, older_status])"
  let ?N = "twitter_on (vendor_up sim_me [] [])"
  have p: "me (api ?P) = Inr sim_me
           \<and> user_timeline (api ?P) (user_id sim_me) 1 = Inr (latest_status # [])
           \<and> get_status (api ?P) (status_id latest_status) = Inr latest_status"
    by (simp add: twitter_on_def vendor_up_def)
  have n: "me (api ?N) = Inr sim_me \<and> user_timeline (api ?N) (user_id sim_me) 1 = Inr []"
    by (simp add: twitter_on_def vendor_up_def)
  have v: "favorite_count latest_status = 7" "retweet_count latest_status = 3"
    "user_id sim_me = 1"
    by (simp_all add: latest_status_def sim_me_def)
  note P = latest_counts_need_a_post[of ?P sim_me latest_status "[]" latest_status]
  note N = latest_counts_need_a_post[of ?N sim_me]
  show ?thesis
    using P p N n v by simp
qed

section \<open>The post actions of the presentation layer\<close>

lemma post_text_total: "\<exists>b. fst (post_text tw text) = Inr b"
  unfolding post_text_def
  by (cases "update_status (api tw) text") (auto simp add: io_defs)

lemma post_photo_total: "\<exists>b. fst (post_photo tw url text) = Inr b"
  unfolding post_photo_def
  by (cases "update_with_media (api tw) url text") (auto simp add: io_defs)

lemma post_text_loop_returns: "fst (post_text_loop tw text apis) = Inr ()"
proof (induction apis)
  case Nil
  show ?case by (simp add: return_io_def)
next
  case (Cons a apis)
  obtain b where "fst (post_text tw text) = Inr b"
    using post_text_total by blast
  then have "fst (bind_io (post_text tw text) (\<lambda>_. post_text_loop tw text apis)) = Inr ()"
    using Cons.IH by (simp add: bind_io_fst_value)
  then show ?case using Cons.IH by (simp add: bind_emit)
qed

lemma post_pic_loop_returns: "fst (post_pic_loop tw url text apis) = Inr ()"
proof (induction apis)
  case Nil
  show ?case by (simp add: return_io_def)
next
  case (Cons a apis)
  obtain b where "fst (post_photo tw url text) = Inr b"
    using post_photo_total by blast
  then have "fst (bind_io (post_photo tw url text) (\<lambda>_. post_pic_loop tw url text apis)) = Inr ()"
    using Cons.IH by (simp add: bind_io_fst_value)
  then show ?case using Cons.IH by (simp add: bind_emit)
qed

lemma except_Exception_set_returned:
  "fst body = Inr () \<Longrightarrow> except_Exception_set msg g body = (Inr (), g, snd body)"
  by (cases body) (simp add: except_Exception_set_def)

text \<open>
  Whatever the vendor does, a post action whose selection holds only codes of the
  list box returns with the status label empty: the adapter has turned every exception
  of the vendor into \<^verbatim>\<open>False\<close>, and the loop drops that value.
\<close>

lemma gui_post_text_vendor_failures_unseen:
  assumes "strip (text_box g) \<noteq> []" and "api_list (curselection g) = Inr apis"
  shows "fst (gui_post_text tw g) = Inr ()
         \<and> fst (snd (gui_post_text tw g)) = g\<lparr>io_error := []\<rparr>"
proof -
  have "fst (bind_io (api_iterator (g\<lparr>io_error := []\<rparr>))
               (post_text_loop tw (strip (text_box g)))) = Inr ()"
    using assms(2)
    by (simp add: api_iterator_def lift_io_def bind_io_value post_text_loop_returns)
  from except_Exception_set_returned[OF this] assms(1) show ?thesis
    by (simp add: gui_post_text_def Let_def)
qed

lemma gui_post_pic_vendor_failures_unseen:
  assumes "filepath g \<noteq> ''No file uploaded''" and "api_list (curselection g) = Inr apis"
  shows "fst (gui_post_pic tw g) = Inr ()
         \<and> fst (snd (gui_post_pic tw g)) = g\<lparr>io_error := []\<rparr>"
proof -
  have "fst (bind_io (api_iterator (g\<lparr>io_error := []\<rparr>))
               (post_pic_loop tw (filepath g) (text_box g))) = Inr ()"
    using assms(2)
    by (simp add: api_iterator_def lift_io_def bind_io_value post_pic_loop_returns)
  from except_Exception_set_returned[OF this] assms(1) show ?thesis
    by (simp add: gui_post_pic_def Let_def)
qed

text \<open>
  The handler of the post action does run when the failure is the presentation layer's
  own: a selected code that is no key of \<^verbatim>\<open>api_cache\<close> raises \<^verbatim>\<open>KeyError\<close> in the
  \<^verbatim>\<open>try\<close> block, before any adapter call.
\<close>

lemma gui_post_text_own_failure_reported:
  "gui_post_text tw (gui_hello [3, 8])
   = (Inr (), (gui_hello [3, 8])\<lparr>io_error := ''An API failed to post text''\<rparr>, [])"
  by (simp add: gui_post_text_def gui_hello_def strip_def py_isspace_def api_iterator_def
      api_cache_def except_Exception_set_def isinstance_Exception_def Let_def io_defs)

text \<open>
  Claim C7. When the content of the text box is empty after stripping whitespace, the
  post-text action sets the status to \<^verbatim>\<open>Error: no text found\<close> and returns: no other
  widget changes and the run has no effect, so no adapter method was called and no
  vendor call made.
\<close>

theorem gui_post_text_empty_short_circuits:
  "strip (text_box g) = [] \<Longrightarrow>
   gui_post_text tw g = (Inr (), g\<lparr>io_error := ''Error: no text found''\<rparr>, [])"
  by (simp add: gui_post_text_def)

text \<open>A text box of a space, a tab and a newline, with Twitter selected.\<close>

theorem gui_post_text_empty_short_circuits_witness:
  "strip (text_box gui_blank) = []
   \<and> gui_post_text (twitter_on (vendor_up sim_me [] [])) gui_blank
     = (Inr (), gui_blank\<lparr>io_error := ''Error: no text found''\<rparr>, [])"
proof -
  have h: "strip (text_box gui_blank) = []"
    by (simp add: gui_blank_def strip_def py_isspace_def)
  from gui_post_text_empty_short_circuits[OF h] h show ?thesis by simp
qed

text \<open>
  Claim C10. With a text that is not empty after stripping and with nothing selected
  in the list box, the post-text action returns normally with the status set to the
  empty string and with no effect; that status is the one a successful post on Twitter
  leaves.
\<close>

theorem gui_post_text_no_selection_silent:
  assumes "strip (text_box g) \<noteq> []" and "curselection g = []"
  shows "gui_post_text tw g = (Inr (), g\<lparr>io_error := []\<rparr>, [])
         \<and> (update_status (api tw') (strip (text_box g)) = Inr s \<longrightarrow>
              io_error (fst (snd (gui_post_text tw' (g\<lparr>curselection := [3]\<rparr>))))
              = io_error (fst (snd (gui_post_text tw g))))"
proof (intro conjI impI)
  show silent: "gui_post_text tw g = (Inr (), g\<lparr>io_error := []\<rparr>, [])"
    using assms
    by (simp add: gui_post_text_def Let_def api_iterator_def lift_io_def bind_io_value
        return_io_def except_Exception_set_def)
  have sel: "api_list (curselection (g\<lparr>curselection := [3]\<rparr>)) = Inr [''Twitter'']"
    by (simp add: api_cache_def)
  have nonempty: "strip (text_box (g\<lparr>curselection := [3]\<rparr>)) \<noteq> []"
    using assms(1) by simp
  show "io_error (fst (snd (gui_post_text tw' (g\<lparr>curselection := [3]\<rparr>))))
              = io_error (fst (snd (gui_post_text tw g)))"
    using gui_post_text_vendor_failures_unseen[OF nonempty sel, of tw'] silent by simp
qed

text \<open>The text \<^verbatim>\<open>hello\<close> with no selection, and with Twitter selected on a vendor that accepts.\<close>

theorem gui_post_text_no_selection_silent_witness:
  "gui_post_text (twitter_on (vendor_down rate_limited)) (gui_hello [])
     = (Inr (), (gui_hello [])\<lparr>io_error := []\<rparr>, [])
   \<and> io_error (fst (snd (gui_post_text (twitter_on (vendor_up sim_me [] [])) (gui_hello [3]))))
     = []"
proof -
  have st: "strip (text_box (gui_hello [])) = ''hello''"
    by (simp add: gui_hello_def strip_def py_isspace_def)
  then have h1: "strip (text_box (gui_hello [])) \<noteq> []" by simp
  have h2: "curselection (gui_hello []) = []" by (simp add: gui_hello_def)
  have h3: "update_status (api (twitter_on (vendor_up sim_me [] [])))
              (strip (text_box (gui_hello []))) = Inr posted_status"
    by (simp add: twitter_on_def vendor_up_def)
  have g: "(gui_hello [])\<lparr>curselection := [3]\<rparr> = gui_hello [3]"
    by (simp add: gui_hello_def)
  from gui_post_text_no_selection_silent[OF h1 h2,
      of "twitter_on (vendor_down rate_limited)" "twitter_on (vendor_up sim_me [] [])"
        posted_status] h3 g
  show ?thesis by simp
qed

text \<open>
  Claim C4, on the code. Twitter is selected, the text is \<^verbatim>\<open>hello\<close>, a file is chosen,
  and every call to the vendor raises \<^verbatim>\<open>TweepError('Rate limit exceeded')\<close>. Both post
  actions call the adapter, the adapter prints the cause and returns \<^verbatim>\<open>False\<close>, and
  the status label is left empty: neither \<^verbatim>\<open>An API failed to post text\<close> nor
  \<^verbatim>\<open>An API failed to post a photo\<close> is displayed.
\<close>

theorem gui_post_vendor_failure_status_stays_empty:
  "gui_post_text (twitter_on (vendor_down rate_limited)) (gui_hello [3])
     = (Inr (), (gui_hello [3])\<lparr>io_error := []\<rparr>,
        [AdapterCall (PostText ''hello''), VendorCall (UpdateStatus ''hello''),
         Print ''Rate limit exceeded''])
   \<and> gui_post_pic (twitter_on (vendor_down rate_limited)) (gui_hello [3])
     = (Inr (), (gui_hello [3])\<lparr>io_error := []\<rparr>,
        [AdapterCall (PostPhoto ''/tmp/cat.jpg'' (''hello'' @ [CHR 0x0A])),
         VendorCall (UpdateWithMedia ''/tmp/cat.jpg'' (''hello'' @ [CHR 0x0A])),
         Print ''Rate limit exceeded''])"
  by (simp add: gui_post_text_def gui_post_pic_def gui_hello_def strip_def py_isspace_def
      api_iterator_def api_cache_def post_text_def post_photo_def twitter_on_def
      vendor_down_def rate_limited_def except_Exception_set_def Let_def io_defs)

section \<open>The stream writer\<close>

lemma open_append_openable:
  assumes "openable fs0 p"
  shows "\<exists>tf. open_append fs0 p = Inr tf \<and> content_of tf p = content_of fs0 p
           \<and> tf(p := Absent) = fs0(p := Absent) \<and> openable tf p"
  using assms
  by (auto simp add: openable_def open_append_def content_of_def split: if_splits node.splits)

lemma open_append_refused:
  assumes "\<not> openable fs0 p"
  shows "\<exists>e. open_append fs0 p = Inl e"
  using assms by (auto simp add: openable_def split: sum.splits)

lemma openable_after_write: "openable tf p \<Longrightarrow> openable (tf(p := Regular c)) p"
  by (auto simp add: openable_def open_append_def split: if_splits node.splits)

lemma on_data_always_true: "fst (on_data rt self raw fs0) = Inr True"
  by (simp add: on_data_def on_data_handler_def split: sum.splits)

lemma on_data_written:
  assumes "open_append fs0 (fetched_tweets_filename self) = Inr tf"
    and "tweet_text rt raw = Some s"
    and "write_error rt (fetched_tweets_filename self) s = None"
  shows "on_data rt self raw fs0
         = (Inr True,
            tf(fetched_tweets_filename self := Regular (content_of tf (fetched_tweets_filename self) @ s)),
            [])"
  using assms
  by (auto simp add: tweet_text_def on_data_def file_write_def dict_getitem_def
      split: sum.splits json.splits option.splits)

lemma on_data_not_well_formed:
  assumes "open_append fs0 (fetched_tweets_filename self) = Inr tf"
    and "tweet_text rt raw = None"
  shows "\<exists>msg. on_data rt self raw fs0 = (Inr True, tf, [Print (''Error on data '' @ msg)])"
  using assms
  by (auto simp add: tweet_text_def on_data_def on_data_handler_def file_write_def
      dict_getitem_def split: sum.splits json.splits option.splits)

lemma on_data_refused:
  assumes "open_append fs0 (fetched_tweets_filename self) = Inl e"
  shows "on_data rt self raw fs0 = (Inr True, fs0, [Print (''Error on data '' @ exn_str e)])"
  using assms by (simp add: on_data_def on_data_handler_def)

lemma on_data_unwritten:
  assumes "open_append fs0 (fetched_tweets_filename self) = Inr tf"
    and "tweet_text rt raw = Some s"
    and "write_error rt (fetched_tweets_filename self) s = Some e"
  shows "on_data rt self raw fs0 = (Inr True, tf, [Print (''Error on data '' @ exn_str e)])"
  using assms
  by (auto simp add: tweet_text_def on_data_def on_data_handler_def file_write_def
      dict_getitem_def split: sum.splits json.splits option.splits)

lemma content_written: "content_of (tf(p := Regular c)) p = c"
  by (simp add: content_of_def)

lemma stream_step_returns:
  "session st = Listening \<Longrightarrow>
   session (stream_step rt self st raw) = Listening
   \<and> returned (stream_step rt self st raw) = returned st @ [Inr True]"
  using on_data_always_true[of rt self raw "files st"]
  by (auto simp add: stream_step_def split: prod.splits)

lemma stream_fold_returns:
  "session st = Listening \<Longrightarrow>
   session (foldl (stream_step rt self) st inbound) = Listening
   \<and> returned (foldl (stream_step rt self) st inbound)
       = returned st @ replicate (length inbound) (Inr True)"
proof (induction inbound arbitrary: st)
  case Nil
  then show ?case by simp
next
  case (Cons raw inbound)
  note step = stream_step_returns[OF Cons.prems, of rt self raw]
  from step Cons.IH[of "stream_step rt self st raw"] show ?case
    by (simp add: replicate_append_same)
qed

lemma stream_step_listening:
  assumes "session st = Listening"
    and "openable (files st) (fetched_tweets_filename self)"
    and "\<And>s. tweet_text rt raw = Some s \<Longrightarrow> write_error rt (fetched_tweets_filename self) s = None"
  shows "openable (files (stream_step rt self st raw)) (fetched_tweets_filename self)
    \<and> content_of (files (stream_step rt self st raw)) (fetched_tweets_filename self)
        = content_of (files st) (fetched_tweets_filename self)
          @ (case tweet_text rt raw of None \<Rightarrow> [] | Some s \<Rightarrow> s)
    \<and> (files (stream_step rt self st raw))(fetched_tweets_filename self := Absent)
        = (files st)(fetched_tweets_filename self := Absent)
    \<and> length (printed (stream_step rt self st raw))
        = length (printed st) + (case tweet_text rt raw of None \<Rightarrow> 1 | Some s \<Rightarrow> 0)"
proof -
  let ?p = "fetched_tweets_filename self"
  from open_append_openable[OF assms(2)] obtain tf where
    tf: "open_append (files st) ?p = Inr tf" "content_of tf ?p = content_of (files st) ?p"
      "tf(?p := Absent) = (files st)(?p := Absent)" "openable tf ?p"
    by blast
  show ?thesis
  proof (cases "tweet_text rt raw")
    case None
    from on_data_not_well_formed[OF tf(1) None] obtain msg where
      "on_data rt self raw (files st) = (Inr True, tf, [Print (''Error on data '' @ msg)])"
      by blast
    then show ?thesis using assms(1) None tf
      by (simp add: stream_step_def)
  next
    case (Some s)
    from assms(3)[OF Some] have w: "write_error rt ?p s = None" .
    from on_data_written[OF tf(1) Some w] show ?thesis using assms(1) Some tf
      by (simp add: stream_step_def content_written openable_after_write)
  qed
qed

lemma writable_head:
  "writable rt p (List.map_filter f (x # xs)) \<Longrightarrow> f x = Some s \<Longrightarrow> write_error rt p s = None"
  by (simp add: writable_def split: if_splits)

lemma writable_tail:
  "writable rt p (List.map_filter f (x # xs)) \<Longrightarrow> writable rt p (List.map_filter f xs)"
  by (simp add: writable_def split: option.splits if_splits)

lemma stream_fold:
  "session st = Listening \<Longrightarrow>
   openable (files st) (fetched_tweets_filename self) \<Longrightarrow>
   writable rt (fetched_tweets_filename self) (List.map_filter (tweet_text rt) inbound) \<Longrightarrow>
   content_of (files (foldl (stream_step rt self) st inbound)) (fetched_tweets_filename self)
       = content_of (files st) (fetched_tweets_filename self)
         @ concat (List.map_filter (tweet_text rt) inbound)
   \<and> (files (foldl (stream_step rt self) st inbound))(fetched_tweets_filename self := Absent)
       = (files st)(fetched_tweets_filename self := Absent)
   \<and> length (printed (foldl (stream_step rt self) st inbound))
       = length (printed st) + length (skipped rt inbound)"
proof (induction inbound arbitrary: st)
  case Nil
  then show ?case by (simp add: skipped_def)
next
  case (Cons raw inbound)
  note step = stream_step_listening[OF Cons.prems(1) Cons.prems(2)
      writable_head[OF Cons.prems(3)], of raw]
  from stream_step_returns[OF Cons.prems(1), of rt self raw]
  have l: "session (stream_step rt self st raw) = Listening" by simp
  from step have o: "openable (files (stream_step rt self st raw)) (fetched_tweets_filename self)"
    by simp
  note ih = Cons.IH[OF l o writable_tail[OF Cons.prems(3)]]
  show ?case
  proof (cases "tweet_text rt raw")
    case None
    with step ih show ?thesis by (simp add: skipped_def)
  next
    case (Some s)
    with step ih show ?thesis by (simp add: skipped_def)
  qed
qed

text \<open>
  Claim C2, as the code has it. Call a message well-formed when it decodes to a JSON
  object whose member \<^verbatim>\<open>text\<close> is a string. For every runtime, listener, file system
  and sequence of inbound messages, \<^verbatim>\<open>on_data\<close> has returned \<^verbatim>\<open>True\<close> for every message
  and the session is still listening at the end. When moreover the destination can be
  opened for appending and the text of every well-formed message can be written to it,
  the destination holds what it held before (nothing, when it did not exist) followed
  by the texts of the well-formed messages in arrival order with nothing between them,
  no other path has changed, and one line has been printed for each message that is not
  well-formed.
\<close>

theorem stream_writes_string_texts:
  "session (stream_filter rt self files0 inbound) = Listening
   \<and> returned (stream_filter rt self files0 inbound) = replicate (length inbound) (Inr True)
   \<and> (openable files0 (fetched_tweets_filename self)
       \<and> writable rt (fetched_tweets_filename self) (List.map_filter (tweet_text rt) inbound)
      \<longrightarrow>
        content_of (files (stream_filter rt self files0 inbound)) (fetched_tweets_filename self)
          = content_of files0 (fetched_tweets_filename self)
            @ concat (List.map_filter (tweet_text rt) inbound)
        \<and> (files (stream_filter rt self files0 inbound))(fetched_tweets_filename self := Absent)
          = files0(fetched_tweets_filename self := Absent)
        \<and> length (printed (stream_filter rt self files0 inbound))
          = length (skipped rt inbound))"
proof (intro conjI impI)
  let ?st = "\<lparr>session = Listening, files = files0, returned = [], printed = []\<rparr>"
  have l: "session ?st = Listening" by simp
  from stream_fold_returns[OF l, of rt self inbound]
  show "session (stream_filter rt self files0 inbound) = Listening"
    and "returned (stream_filter rt self files0 inbound) = replicate (length inbound) (Inr True)"
    by (simp_all add: stream_filter_def)
  assume h: "openable files0 (fetched_tweets_filename self)
       \<and> writable rt (fetched_tweets_filename self) (List.map_filter (tweet_text rt) inbound)"
  then have o: "openable (files ?st) (fetched_tweets_filename self)" by simp
  from h have w: "writable rt (fetched_tweets_filename self) (List.map_filter (tweet_text rt) inbound)"
    by simp
  note f = stream_fold[OF l o w]
  from f show "content_of (files (stream_filter rt self files0 inbound)) (fetched_tweets_filename self)
          = content_of files0 (fetched_tweets_filename self)
            @ concat (List.map_filter (tweet_text rt) inbound)"
    by (simp add: stream_filter_def)
  from f show "(files (stream_filter rt self files0 inbound))(fetched_tweets_filename self := Absent)
          = files0(fetched_tweets_filename self := Absent)"
    by (simp add: stream_filter_def)
  from f show "length (printed (stream_filter rt self files0 inbound))
          = length (skipped rt inbound)"
    by (simp add: stream_filter_def)
qed

text \<open>The definitions that a run on the simulated stream unfolds.\<close>

lemmas stream_fixture_defs = sim_runtime_def sim_loads_def sim_table_def sim_inbound_def
  sim_listener_def sim_write_error_def surrogate_message_def no_files_def locked_files_def
  codepoints_def

lemmas on_data_defs = stream_filter_def stream_step_def on_data_def on_data_handler_def
  dict_getitem_def open_append_def file_write_def content_of_def

text \<open>
  Four messages to a new file \<^verbatim>\<open>tweets.txt\<close>: two texts written, two messages skipped.
\<close>

theorem stream_writes_string_texts_witness:
  "openable no_files (fetched_tweets_filename sim_listener)
   \<and> writable sim_runtime (fetched_tweets_filename sim_listener)
        (List.map_filter (tweet_text sim_runtime) sim_inbound)
   \<and> session (stream_filter sim_runtime sim_listener no_files sim_inbound) = Listening
   \<and> returned (stream_filter sim_runtime sim_listener no_files sim_inbound)
       = [Inr True, Inr True, Inr True, Inr True]
   \<and> content_of (files (stream_filter sim_runtime sim_listener no_files sim_inbound))
        (fetched_tweets_filename sim_listener) = codepoints ''ab''
   \<and> length (printed (stream_filter sim_runtime sim_listener no_files sim_inbound)) = 2"
proof -
  have texts: "List.map_filter (tweet_text sim_runtime) sim_inbound
      = [codepoints ''a'', codepoints ''b'']"
    by (simp add: tweet_text_def stream_fixture_defs)
  have rest: "length (skipped sim_runtime sim_inbound) = 2"
    by (simp add: skipped_def tweet_text_def stream_fixture_defs)
  have h1: "openable no_files (fetched_tweets_filename sim_listener)"
    by (simp add: openable_def open_append_def stream_fixture_defs)
  have h2: "writable sim_runtime (fetched_tweets_filename sim_listener)
        (List.map_filter (tweet_text sim_runtime) sim_inbound)"
    unfolding texts by (simp add: writable_def stream_fixture_defs)
  have before: "content_of no_files (fetched_tweets_filename sim_listener) = []"
    by (simp add: content_of_def no_files_def)
  have four: "replicate (length sim_inbound) (Inr True :: exn + bool)
      = [Inr True, Inr True, Inr True, Inr True]"
    by (simp add: sim_inbound_def)
  have ab: "concat [codepoints ''a'', codepoints ''b''] = codepoints ''ab''"
    by (simp add: codepoints_def)
  note inst = stream_writes_string_texts[of sim_runtime sim_listener no_files sim_inbound]
  from inst h1 h2 show ?thesis
    by (simp only: texts rest before four ab append_Nil simp_thms)
qed

text \<open>
  Claim C2, as it is worded, fails. Of four inbound messages three are valid JSON with
  a member \<^verbatim>\<open>text\<close> and one is not JSON. The second has the number 5 as its text:
  \<^verbatim>\<open>tf.write\<close> raises \<^verbatim>\<open>TypeError\<close> on it, the handler prints, and the message is
  skipped like the malformed one. The new file holds the texts of two messages, not of
  three, and two lines have been printed, not one.
\<close>

theorem stream_number_as_text_counterexample:
  "map (has_text_field sim_runtime) sim_inbound = [True, True, False, True]
   \<and> content_of (files (stream_filter sim_runtime sim_listener no_files sim_inbound))
        ''tweets.txt'' = codepoints ''ab''
   \<and> printed (stream_filter sim_runtime sim_listener no_files sim_inbound)
      = [Print ''Error on data write() argument must be str, not int'',
         Print ''Error on data Expecting value: line 1 column 1 (char 0)'']
   \<and> returned (stream_filter sim_runtime sim_listener no_files sim_inbound)
      = [Inr True, Inr True, Inr True, Inr True]"
  by (simp add: has_text_field_def stream_fixture_defs on_data_defs)

text \<open>
  Why the destination and the texts matter: \<^verbatim>\<open>open\<close> and \<^verbatim>\<open>tf.write\<close> are inside the
  \<^verbatim>\<open>try\<close> block, so a well-formed message is skipped and logged as well when its text
  cannot be encoded, when the path is refused, and when the path is empty.
\<close>

lemma on_data_lone_surrogate_skipped:
  "tweet_text sim_runtime surrogate_message = Some [0xD800]
   \<and> on_data sim_runtime sim_listener surrogate_message no_files
     = (Inr True, no_files(''tweets.txt'' := Regular []),
        [Print (''Error on data '' @ [CHR 0x27] @ ''utf-8'' @ [CHR 0x27] @ '' codec can''
                @ [CHR 0x27] @ ''t encode character '' @ [CHR 0x27, CHR 0x5C] @ ''ud800''
                @ [CHR 0x27] @ '' in position 0: surrogates not allowed'')])"
  by (simp add: tweet_text_def stream_fixture_defs on_data_defs)

lemma on_data_locked_path_skipped:
  \<open>tweet_text sim_runtime ''{"text": "a"}'' = Some (codepoints ''a'')
   \<and> on_data sim_runtime sim_listener ''{"text": "a"}'' locked_files
     = (Inr True, locked_files,
        [Print (''Error on data [Errno 13] Permission denied: '' @ [CHR 0x27]
                @ ''tweets.txt'' @ [CHR 0x27])])\<close>
  by (simp add: tweet_text_def stream_fixture_defs on_data_defs)

lemma on_data_empty_path_skipped:
  \<open>on_data sim_runtime \<lparr>fetched_tweets_filename = []\<rparr> ''{"text": "a"}'' no_files
     = (Inr True, no_files,
        [Print (''Error on data [Errno 2] No such file or directory: ''
                @ [CHR 0x27, CHR 0x27])])\<close>
  by (simp add: stream_fixture_defs on_data_defs)

end
